theory Spec2Isabelle
  imports
    Complex_Main
    "HOL-Library.AList"
    "HOL-Library.Multiset"
    "HOL-Library.Sublist"
    "HOL-Library.Char_ord"
    "HOL-Library.List_Lexorder"
    "HOL-Library.Log_Nat"
begin

section \<open>gpt-drift: behavioural fingerprints and drift scoring (drift.py)\<close>

text \<open>
  The development embeds \<^verbatim>\<open>drift.py\<close>. Conventions of the embedding:

  \<^item> Python \<^verbatim>\<open>float\<close> (and numpy's \<^verbatim>\<open>float64\<close>) values are idealised as \<^typ>\<open>real\<close>;
    rounding, \<^verbatim>\<open>nan\<close> and \<^verbatim>\<open>inf\<close> are outside the model. Where a property depends on the
    rounding, the comparison is embedded a second time with every operation rounded to
    binary64 (\<open>compare_fingerprints_f64\<close>).
  \<^item> A Python \<^verbatim>\<open>dict\<close> is an association list in insertion order; a list that represents
    a dict has pairwise distinct keys. Lookup is \<^const>\<open>map_of\<close>, item assignment is
    \<^const>\<open>AList.update\<close> (an existing key keeps its position, a new key goes last).
  \<^item> A Python \<^verbatim>\<open>str\<close> is a \<^typ>\<open>string\<close>; a \<^typ>\<open>char\<close> stands for the code point of the
    same number, so the strings of the model are those over code points below 256.
  \<^item> An exception is a value \<open>Inl e\<close> of the result type.
\<close>

subsection \<open>Data model\<close>

datatype error =
    TypeError | ZeroDivisionError | KeyError | FileNotFoundError | JSONDecodeError | OutsideModel

text \<open>
  A value stored in the \<^verbatim>\<open>metrics\<close> dict: a number, or a string (the
  \<^verbatim>\<open>response_hash\<close> entry).
\<close>

datatype mval = Num real | Str string

type_synonym metrics_dict = "(string \<times> mval) list"

record Fingerprint =
  model :: string
  timestamp :: string
  metrics :: metrics_dict
  raw_responses :: "string list"

record DriftReport =
  baseline_timestamp :: string
  current_timestamp :: string
  drift_score :: real
  changed_metrics :: "(string \<times> (mval \<times> mval)) list"

definition drift_detected :: "DriftReport \<Rightarrow> bool" where
  "drift_detected r = (drift_score r > 0.15)"

subsection \<open>Comparing two fingerprints\<close>

text \<open>
  \<^verbatim>\<open>np.mean\<close> of a list of numbers. numpy returns \<^verbatim>\<open>nan\<close> (with a warning) on the empty
  list; the value \<open>0\<close> that the division gives there is never observed by the program:
  \<^verbatim>\<open>compare_fingerprints\<close> guards the call, and \<^verbatim>\<open>extract_metrics\<close> raises before it
  returns. Over the reals the mean does not depend on the order of the list; the binary64
  sum that numpy computes does, see \<open>np_mean_f64\<close> below.
\<close>

definition np_mean :: "real list \<Rightarrow> real" where
  "np_mean xs = sum_list xs / real (length xs)"

text \<open>
  The body of the loop that computes \<^verbatim>\<open>diff\<close> from \<^verbatim>\<open>old_val\<close> and \<^verbatim>\<open>new_val\<close>:
  \<^verbatim>\<open>abs(new_val)\<close> if \<^verbatim>\<open>old_val == 0\<close>, else \<^verbatim>\<open>abs(new_val - old_val) / abs(old_val)\<close>.
  A string never equals \<^verbatim>\<open>0\<close>, and \<^verbatim>\<open>abs\<close> and \<^verbatim>\<open>-\<close> raise \<^verbatim>\<open>TypeError\<close> as soon as
  one operand is a string.
\<close>

fun metric_diff :: "mval \<Rightarrow> mval \<Rightarrow> error + real" where
  "metric_diff (Num old_val) (Num new_val) =
     Inr (if old_val = 0 then \<bar>new_val\<bar> else \<bar>new_val - old_val\<bar> / \<bar>old_val\<bar>)"
| "metric_diff (Num old_val) (Str new_val) = Inl TypeError"
| "metric_diff (Str old_val) new_val = Inl TypeError"

text \<open>\<^verbatim>\<open>d.get(key, default)\<close>: the value stored under the key, the default without one.\<close>

definition dict_get :: "('k \<times> 'v) list \<Rightarrow> 'k \<Rightarrow> 'v \<Rightarrow> 'v" where
  "dict_get d key dflt = (case map_of d key of Some v \<Rightarrow> v | None \<Rightarrow> dflt)"

text \<open>
  The \<^verbatim>\<open>for key in baseline.metrics\<close> loop, over the items of the baseline that are still
  to be visited, with the accumulators \<^verbatim>\<open>changed\<close> and \<^verbatim>\<open>diffs\<close> (here \<open>diff_acc\<close>;
  \<open>diffs\<close> is a constant of analysis).
\<close>

fun compare_loop ::
  "metrics_dict \<Rightarrow> metrics_dict \<Rightarrow> (string \<times> (mval \<times> mval)) list \<Rightarrow> real list
     \<Rightarrow> error + ((string \<times> (mval \<times> mval)) list \<times> real list)" where
  "compare_loop [] cur changed diff_acc = Inr (changed, diff_acc)"
| "compare_loop ((key, old_val) # rest) cur changed diff_acc =
     (if key = ''response_hash'' then compare_loop rest cur changed diff_acc
      else
        let new_val = dict_get cur key old_val in
        (case metric_diff old_val new_val of
           Inl e \<Rightarrow> Inl e
         | Inr diff \<Rightarrow>
             compare_loop rest cur
               (if diff > 0.10 then AList.update key (old_val, new_val) changed else changed)
               (diff_acc @ [diff])))"

definition compare_fingerprints :: "Fingerprint \<Rightarrow> Fingerprint \<Rightarrow> error + DriftReport" where
  "compare_fingerprints baseline current =
     (case compare_loop (metrics baseline) (metrics current) [] [] of
        Inl e \<Rightarrow> Inl e
      | Inr (changed, diff_acc) \<Rightarrow>
          let drift_score0 = (if diff_acc \<noteq> [] then np_mean diff_acc else 0.0);
              drift_score1 =
                (if map_of (metrics baseline) ''response_hash''
                      \<noteq> map_of (metrics current) ''response_hash''
                 then min (drift_score0 + 0.1) 1.0 else drift_score0)
          in Inr \<lparr> baseline_timestamp = timestamp baseline,
                   current_timestamp = timestamp current,
                   drift_score = drift_score1,
                   changed_metrics = changed \<rparr>)"

subsection \<open>The comparison in binary64 arithmetic\<close>

text \<open>
  Rounding a real number to binary64: to the nearest number with 53 significant bits, a tie
  to the one with the even significand. \<open>f64_exponent x\<close> is the exponent \<open>e\<close> with
  \<open>2 ^ e \<le> \<bar>x\<bar> < 2 ^ (e + 1)\<close>, but not less than \<open>-1022\<close> (gradual underflow); the binary64
  numbers around \<open>x\<close> are the multiples of \<open>2 ^ (e - 52)\<close>.
\<close>

definition pow2 :: "int \<Rightarrow> real" where
  "pow2 e = (if 0 \<le> e then 2 ^ nat e else 1 / 2 ^ nat (- e))"

definition f64_exponent :: "real \<Rightarrow> int" where
  "f64_exponent x =
     max (- 1022)
       (if 1 \<le> \<bar>x\<bar> then bitlen \<lfloor>\<bar>x\<bar>\<rfloor> - 1 else - bitlen (\<lceil>1 / \<bar>x\<bar>\<rceil> - 1))"

definition round_half_even :: "real \<Rightarrow> int" where
  "round_half_even m =
     (let f = \<lfloor>m\<rfloor>; r = m - of_int f in
      if r < 1 / 2 then f else if 1 / 2 < r then f + 1 else if even f then f else f + 1)"

definition f64_round :: "real \<Rightarrow> real" where
  "f64_round x =
     (if x = 0 then 0
      else let q = pow2 (f64_exponent x - 52) in of_int (round_half_even (x / q)) * q)"

text \<open>
  The result of one arithmetic operation on floats: the exact result, rounded. A rounded
  result of magnitude \<open>2 ^ 1024\<close> or more (an integer of more than 1024 bits) is \<^verbatim>\<open>inf\<close> in
  Python, which the model does not have.
\<close>

definition f64 :: "real \<Rightarrow> error + real" where
  "f64 x =
     (let y = f64_round x in
      if 1024 < bitlen \<lfloor>\<bar>y\<bar>\<rfloor> then Inl OutsideModel else Inr y)"

text \<open>
  The loop body, the loop and \<^verbatim>\<open>compare_fingerprints\<close> once more, on metrics whose numbers
  are binary64 values, with the rounding of each operation written out: the subtraction
  and the division of the relative difference (\<^verbatim>\<open>abs\<close> is exact), the literal \<^verbatim>\<open>0.10\<close>, the
  additions and the division of \<^verbatim>\<open>np.mean\<close>, and the addition of \<^verbatim>\<open>0.1\<close>.
\<close>

fun metric_diff_f64 :: "mval \<Rightarrow> mval \<Rightarrow> error + real" where
  "metric_diff_f64 (Num old_val) (Num new_val) =
     (if old_val = 0 then Inr \<bar>new_val\<bar>
      else
        (case f64 (new_val - old_val) of
           Inl e \<Rightarrow> Inl e
         | Inr d \<Rightarrow> f64 (\<bar>d\<bar> / \<bar>old_val\<bar>)))"
| "metric_diff_f64 (Num old_val) (Str new_val) = Inl TypeError"
| "metric_diff_f64 (Str old_val) new_val = Inl TypeError"

fun compare_loop_f64 ::
  "metrics_dict \<Rightarrow> metrics_dict \<Rightarrow> (string \<times> (mval \<times> mval)) list \<Rightarrow> real list
     \<Rightarrow> error + ((string \<times> (mval \<times> mval)) list \<times> real list)" where
  "compare_loop_f64 [] cur changed diff_acc = Inr (changed, diff_acc)"
| "compare_loop_f64 ((key, old_val) # rest) cur changed diff_acc =
     (if key = ''response_hash'' then compare_loop_f64 rest cur changed diff_acc
      else
        let new_val = dict_get cur key old_val in
        (case metric_diff_f64 old_val new_val of
           Inl e \<Rightarrow> Inl e
         | Inr diff \<Rightarrow>
             compare_loop_f64 rest cur
               (if diff > f64_round 0.10 then AList.update key (old_val, new_val) changed
                else changed)
               (diff_acc @ [diff])))"

text \<open>
  \<^verbatim>\<open>np.mean\<close> on binary64 values: numpy adds an array of fewer than eight numbers one by one,
  from the first to the last, starting from zero, and divides the sum by the count. It adds
  a longer array in blocks, which the model leaves out; seven differences are what the
  metrics of \<^verbatim>\<open>extract_metrics\<close> give.
\<close>

fun f64_sum :: "real \<Rightarrow> real list \<Rightarrow> error + real" where
  "f64_sum res [] = Inr res"
| "f64_sum res (a # as) =
     (case f64 (res + a) of Inl e \<Rightarrow> Inl e | Inr res' \<Rightarrow> f64_sum res' as)"

definition np_mean_f64 :: "real list \<Rightarrow> error + real" where
  "np_mean_f64 xs =
     (if 8 \<le> length xs then Inl OutsideModel
      else
        (case f64_sum 0 xs of
           Inl e \<Rightarrow> Inl e
         | Inr res \<Rightarrow> f64 (res / real (length xs))))"

definition compare_fingerprints_f64 :: "Fingerprint \<Rightarrow> Fingerprint \<Rightarrow> error + DriftReport" where
  "compare_fingerprints_f64 baseline current =
     (case compare_loop_f64 (metrics baseline) (metrics current) [] [] of
        Inl e \<Rightarrow> Inl e
      | Inr (changed, diff_acc) \<Rightarrow>
          (case (if diff_acc \<noteq> [] then np_mean_f64 diff_acc else Inr 0.0) of
             Inl e \<Rightarrow> Inl e
           | Inr drift_score0 \<Rightarrow>
               (case (if map_of (metrics baseline) ''response_hash''
                           \<noteq> map_of (metrics current) ''response_hash''
                      then (case f64 (drift_score0 + f64_round 0.1) of
                              Inl e \<Rightarrow> Inl e
                            | Inr boosted \<Rightarrow> Inr (min boosted 1.0))
                      else Inr drift_score0) of
                  Inl e \<Rightarrow> Inl e
                | Inr drift_score1 \<Rightarrow>
                    Inr \<lparr> baseline_timestamp = timestamp baseline,
                          current_timestamp = timestamp current,
                          drift_score = drift_score1,
                          changed_metrics = changed \<rparr>)))"

text \<open>\<^verbatim>\<open>drift_detected\<close> against the binary64 value of the literal \<^verbatim>\<open>0.15\<close>.\<close>

definition drift_detected_f64 :: "DriftReport \<Rightarrow> bool" where
  "drift_detected_f64 r = (drift_score r > f64_round 0.15)"

subsection \<open>Extracting metrics from responses\<close>

text \<open>
  \<^verbatim>\<open>str.lower()\<close> on code points below 256: the ASCII capitals and the Latin-1 capitals
  (\<open>0xC0\<close> to \<open>0xDE\<close>, without the multiplication sign \<open>0xD7\<close>) move up by 32, every other
  code point of that range is its own lower case.
\<close>

definition lower_char :: "char \<Rightarrow> char" where
  "lower_char c =
     (let n = (of_char c :: nat) in
      if (65 \<le> n \<and> n \<le> 90) \<or> (192 \<le> n \<and> n \<le> 214) \<or> (216 \<le> n \<and> n \<le> 222)
      then char_of (n + 32) else c)"

definition lower :: "string \<Rightarrow> string" where
  "lower s = map lower_char s"

text \<open>
  Python's \<^verbatim>\<open>word in s\<close> on strings is the contiguous-substring test, which is
  \<^const>\<open>sublist\<close>: \<^term>\<open>sublist word s\<close> holds iff \<open>s = ps @ word @ ss\<close> for some \<open>ps\<close>, \<open>ss\<close>.
\<close>

definition hedge_words :: "string list" where
  "hedge_words =
     [''might'', ''maybe'', ''perhaps'', ''could'', ''possibly'', ''uncertain'', ''likely'']"

definition refusal_markers :: "string list" where
  "refusal_markers =
     [''i cannot'', ''i can'' @ [CHR 0x27] @ ''t'', ''i'' @ [CHR 0x27] @ ''m not able'',
      ''i won'' @ [CHR 0x27] @ ''t'']"

definition list_markers :: "string list" where
  "list_markers = [CHR 0x0A # ''-'', CHR 0x0A # ''*'', CHR 0x0A # ''1.'', CHR 0x0A # ''2.'']"

definition first_person :: "string list" where
  "first_person =
     [''i '', ''i'' @ [CHR 0x27] @ ''m'', ''i'' @ [CHR 0x27] @ ''ve'', ''my '', ''me '']"

text \<open>\<^verbatim>\<open>np.var\<close>: the population variance, the mean of the squared deviations.\<close>

definition np_var :: "real list \<Rightarrow> real" where
  "np_var xs = np_mean (map (\<lambda>x. (x - np_mean xs)\<^sup>2) xs)"

text \<open>Python's \<^verbatim>\<open>/\<close> on two \<^verbatim>\<open>int\<close>s: true division, raising on a zero divisor.\<close>

definition py_truediv :: "nat \<Rightarrow> nat \<Rightarrow> error + real" where
  "py_truediv a b = (if b = 0 then Inl ZeroDivisionError else Inr (real a / real b))"

text \<open>
  \<^verbatim>\<open>extract_metrics\<close>. Its first argument stands for the library call
  \<^verbatim>\<open>lambda s: hashlib.md5(s.encode()).hexdigest()\<close>, which is not code of this
  repository: the function is embedded for an arbitrary digest function.
  The statements run in the order of the source, so on the empty list the first
  \<^verbatim>\<open>/ len(responses)\<close> raises.
\<close>

definition extract_metrics :: "(string \<Rightarrow> string) \<Rightarrow> string list \<Rightarrow> error + metrics_dict" where
  "extract_metrics md5_hexdigest responses =
     (let lengths = map (\<lambda>r. real (length r)) responses;
          avg_length = np_mean lengths;
          length_variance = np_var lengths;
          sentence_counts =
            map (\<lambda>r. real (count_list r CHR ''.'' + count_list r CHR ''!'' + count_list r CHR ''?''))
              responses;
          avg_sentences = np_mean sentence_counts;
          hedge_count =
            sum_list (map (\<lambda>r. length (filter (\<lambda>word. sublist word (lower r)) hedge_words))
              responses)
      in
      (case py_truediv hedge_count (length responses) of
         Inl e \<Rightarrow> Inl e
       | Inr hedging_rate \<Rightarrow>
      (let refusal_count =
             length (filter (\<lambda>r. list_ex (\<lambda>marker. sublist marker (lower r)) refusal_markers)
               responses)
       in
      (case py_truediv refusal_count (length responses) of
         Inl e \<Rightarrow> Inl e
       | Inr refusal_rate \<Rightarrow>
      (let list_count =
             length (filter (\<lambda>r. list_ex (\<lambda>marker. sublist marker r) list_markers) responses)
       in
      (case py_truediv list_count (length responses) of
         Inl e \<Rightarrow> Inl e
       | Inr list_usage_rate \<Rightarrow>
      (let fp_count =
             sum_list (map (\<lambda>r. length (filter (\<lambda>fp. sublist fp (lower r)) first_person))
               responses)
       in
      (case py_truediv fp_count (length responses) of
         Inl e \<Rightarrow> Inl e
       | Inr first_person_rate \<Rightarrow>
      (let combined = concat (sort responses)
       in
       Inr [(''avg_length'', Num avg_length),
            (''length_variance'', Num length_variance),
            (''avg_sentences'', Num avg_sentences),
            (''hedging_rate'', Num hedging_rate),
            (''refusal_rate'', Num refusal_rate),
            (''list_usage_rate'', Num list_usage_rate),
            (''first_person_rate'', Num first_person_rate),
            (''response_hash'', Str (take 8 (md5_hexdigest combined)))])))))))))"

subsection \<open>Saving and loading a fingerprint\<close>

text \<open>
  The values that \<^verbatim>\<open>json.dumps\<close> takes and \<^verbatim>\<open>json.loads\<close> returns: Python's \<^verbatim>\<open>None\<close>,
  booleans, numbers, strings, lists, and dicts with string keys.
\<close>

datatype json =
    JNull
  | JBool bool
  | JNumber real
  | JString string
  | JArray "json list"
  | JObject "(string \<times> json) list"

text \<open>
  The file system maps a path to the text of the file, if there is one. The embedding does
  not look into a text, only \<^verbatim>\<open>json.dumps\<close> and \<^verbatim>\<open>json.loads\<close> do, so the type of texts
  is left open. A write succeeds and replaces the text of the file; the errors of the
  operating system other than a missing file are outside the model.
\<close>

type_synonym 'text file_system = "string \<rightharpoonup> 'text"

definition mval_json :: "mval \<Rightarrow> json" where
  "mval_json v = (case v of Num x \<Rightarrow> JNumber x | Str s \<Rightarrow> JString s)"

text \<open>The dict \<^verbatim>\<open>data\<close> that \<^verbatim>\<open>save\<close> builds from the four fields.\<close>

definition save_data :: "Fingerprint \<Rightarrow> json" where
  "save_data self =
     JObject [(''model'', JString (model self)),
              (''timestamp'', JString (timestamp self)),
              (''metrics'', JObject (map (\<lambda>(key, v). (key, mval_json v)) (metrics self))),
              (''raw_responses'', JArray (map JString (raw_responses self)))]"

text \<open>
  \<^verbatim>\<open>Fingerprint.save\<close>. Its first argument stands for the library call
  \<^verbatim>\<open>lambda data: json.dumps(data, indent=2)\<close>.
\<close>

definition save ::
  "(json \<Rightarrow> 'text) \<Rightarrow> Fingerprint \<Rightarrow> string \<Rightarrow> 'text file_system \<Rightarrow> 'text file_system" where
  "save json_dumps self path fs = (let data = save_data self in fs(path \<mapsto> json_dumps data))"

text \<open>
  Reading a loaded value at the type that the dataclass annotates for a field. The
  constructor of a dataclass checks no annotation; the record of the model is typed, so a
  loaded value of another type has no counterpart in the model.
\<close>

fun as_str :: "json \<Rightarrow> string option" where
  "as_str (JString s) = Some s"
| "as_str _ = None"

fun as_mval :: "json \<Rightarrow> mval option" where
  "as_mval (JNumber x) = Some (Num x)"
| "as_mval (JString s) = Some (Str s)"
| "as_mval _ = None"

fun as_metrics :: "json \<Rightarrow> metrics_dict option" where
  "as_metrics (JObject kvs) = those (map (\<lambda>(key, j). map_option (Pair key) (as_mval j)) kvs)"
| "as_metrics _ = None"

fun as_str_list :: "json \<Rightarrow> string list option" where
  "as_str_list (JArray js) = those (map as_str js)"
| "as_str_list _ = None"

definition field_names :: "string list" where
  "field_names = [''model'', ''timestamp'', ''metrics'', ''raw_responses'']"

text \<open>
  \<^verbatim>\<open>cls(**data)\<close>: \<^verbatim>\<open>TypeError\<close> if \<^verbatim>\<open>data\<close> is no dict, has a key that is no field of the
  dataclass, or lacks one of the four fields; otherwise the fingerprint with these fields.
\<close>

definition from_kwargs :: "json \<Rightarrow> error + Fingerprint" where
  "from_kwargs data =
     (case data of
        JObject kwargs \<Rightarrow>
          if list_ex (\<lambda>(key, j). key \<notin> set field_names) kwargs then Inl TypeError
          else
            (case (map_of kwargs ''model'', map_of kwargs ''timestamp'',
                   map_of kwargs ''metrics'', map_of kwargs ''raw_responses'') of
               (Some m, Some t, Some ms, Some rs) \<Rightarrow>
                 (case (as_str m, as_str t, as_metrics ms, as_str_list rs) of
                    (Some m', Some t', Some ms', Some rs') \<Rightarrow>
                      Inr \<lparr> model = m', timestamp = t', metrics = ms', raw_responses = rs' \<rparr>
                  | _ \<Rightarrow> Inl OutsideModel)
             | _ \<Rightarrow> Inl TypeError)
      | _ \<Rightarrow> Inl TypeError)"

text \<open>
  \<^verbatim>\<open>Fingerprint.load\<close>. Its first argument stands for the library call \<^verbatim>\<open>json.loads\<close>,
  which returns the loaded value or raises.
\<close>

definition load ::
  "('text \<Rightarrow> error + json) \<Rightarrow> string \<Rightarrow> 'text file_system \<Rightarrow> error + Fingerprint" where
  "load json_loads path fs =
     (case fs path of
        None \<Rightarrow> Inl FileNotFoundError
      | Some text \<Rightarrow>
          (case json_loads text of
             Inl e \<Rightarrow> Inl e
           | Inr data \<Rightarrow> from_kwargs data))"

text \<open>
  \<^verbatim>\<open>extract_metrics(responses)[key]\<close>: reading one metric of the result, where an
  exception of the call propagates and a key that is not there raises \<^verbatim>\<open>KeyError\<close>.
\<close>

definition get_metric :: "string \<Rightarrow> error + metrics_dict \<Rightarrow> error + mval" where
  "get_metric key result =
     (case result of
        Inl e \<Rightarrow> Inl e
      | Inr m \<Rightarrow> (case map_of m key of None \<Rightarrow> Inl KeyError | Some v \<Rightarrow> Inr v))"

text \<open>
  The eight keys of the result, in the order in which the source stores them.
\<close>

definition metric_keys :: "string list" where
  "metric_keys =
     [''avg_length'', ''length_variance'', ''avg_sentences'', ''hedging_rate'',
      ''refusal_rate'', ''list_usage_rate'', ''first_person_rate'', ''response_hash'']"

text \<open>
  Following the words of the specification, not the source: the number of occurrences of a
  term in a text (the positions at which the term starts), and the \<^verbatim>\<open>hedging_rate\<close> as
  the specification describes it, the total number of occurrences of any hedge term in the
  lower-cased responses divided by the number of responses.
\<close>

definition count_occurrences :: "string \<Rightarrow> string \<Rightarrow> nat" where
  "count_occurrences word s = length (filter (prefix word) (suffixes s))"

definition spec_hedging_rate :: "string list \<Rightarrow> real" where
  "spec_hedging_rate responses =
     real (sum_list (map (\<lambda>r. sum_list (map (\<lambda>word. count_occurrences word (lower r))
                                          hedge_words)) responses))
       / real (length responses)"

subsection \<open>Notions used to state the properties of the comparison\<close>

definition is_Num :: "mval \<Rightarrow> bool" where
  "is_Num v = (case v of Num _ \<Rightarrow> True | Str _ \<Rightarrow> False)"

text \<open>The items of the baseline that the loop scores: all but \<^verbatim>\<open>response_hash\<close>.\<close>

definition scored_items :: "metrics_dict \<Rightarrow> metrics_dict" where
  "scored_items m = filter (\<lambda>(key, v). key \<noteq> ''response_hash'') m"

text \<open>The relative difference of one baseline item against the current metrics.\<close>

definition item_diff :: "metrics_dict \<Rightarrow> string \<times> mval \<Rightarrow> real" where
  "item_diff cur = (\<lambda>(k, v). projr (metric_diff v (dict_get cur k v)))"

definition item_numeric :: "metrics_dict \<Rightarrow> string \<times> mval \<Rightarrow> bool" where
  "item_numeric cur = (\<lambda>(k, v). is_Num v \<and> is_Num (dict_get cur k v))"

definition mean_or_zero :: "real list \<Rightarrow> real" where
  "mean_or_zero ds = (if ds \<noteq> [] then np_mean ds else 0)"

definition hash_boost :: "metrics_dict \<Rightarrow> metrics_dict \<Rightarrow> real \<Rightarrow> real" where
  "hash_boost mb mc s =
     (if map_of mb ''response_hash'' \<noteq> map_of mc ''response_hash'' then min (s + 0.1) 1 else s)"

text \<open>
  The typing of the data model: every metric but \<^verbatim>\<open>response_hash\<close> is a number.
\<close>

definition numeric_metrics :: "metrics_dict \<Rightarrow> bool" where
  "numeric_metrics m = list_all (\<lambda>(key, v). key = ''response_hash'' \<or> is_Num v) m"

subsection \<open>Example fingerprints\<close>

text \<open>
  The two fingerprints of \<^verbatim>\<open>test_compare_fingerprints_detects_drift\<close> in
  \<^verbatim>\<open>test_drift.py\<close>.
\<close>

definition drift_test_fp1 :: Fingerprint where
  "drift_test_fp1 =
     \<lparr> model = ''test'', timestamp = ''2024-01-01'',
       metrics = [(''avg_length'', Num 100.0), (''hedging_rate'', Num 0.1)],
       raw_responses = [''short''] \<rparr>"

definition drift_test_fp2 :: Fingerprint where
  "drift_test_fp2 =
     \<lparr> model = ''test'', timestamp = ''2024-01-02'',
       metrics = [(''avg_length'', Num 200.0), (''hedging_rate'', Num 0.5)],
       raw_responses = [''much longer response''] \<rparr>"

text \<open>
  The metrics of the first one stored in the other insertion order, in a fingerprint that
  differs from the test's in every other field.
\<close>

definition reordered_fp1 :: Fingerprint where
  "reordered_fp1 =
     \<lparr> model = ''gpt-4o-mini'', timestamp = ''2024-03-01T10:00:00'',
       metrics = [(''hedging_rate'', Num 0.1), (''avg_length'', Num 100.0)],
       raw_responses = [] \<rparr>"

text \<open>
  Two baselines with the same three rates, all \<open>0.0\<close>, inserted in two orders; a third one
  with the keys in the order of the first and other entries in every other field; and two
  current fingerprints with the rates \<open>0.1\<close>, \<open>0.15\<close> and \<open>0.2\<close> (the binary64 values of
  these literals), again in two orders.
\<close>

definition zero_rates :: Fingerprint where
  "zero_rates =
     \<lparr> model = ''test'', timestamp = ''2024-01-01'',
       metrics = [(''refusal_rate'', Num 0), (''list_usage_rate'', Num 0),
                  (''first_person_rate'', Num 0)],
       raw_responses = [''short''] \<rparr>"

definition zero_rates_reordered :: Fingerprint where
  "zero_rates_reordered =
     \<lparr> model = ''test'', timestamp = ''2024-01-01'',
       metrics = [(''refusal_rate'', Num 0), (''first_person_rate'', Num 0),
                  (''list_usage_rate'', Num 0)],
       raw_responses = [''short''] \<rparr>"

definition zero_rates_relabelled :: Fingerprint where
  "zero_rates_relabelled =
     \<lparr> model = ''gpt-4o-mini'', timestamp = ''2024-03-01T10:00:00'',
       metrics = [(''refusal_rate'', Num 0), (''list_usage_rate'', Num 0),
                  (''first_person_rate'', Num 0)],
       raw_responses = [] \<rparr>"

definition small_rates :: Fingerprint where
  "small_rates =
     \<lparr> model = ''test'', timestamp = ''2024-01-02'',
       metrics = [(''refusal_rate'', Num (f64_round 0.1)),
                  (''list_usage_rate'', Num (f64_round 0.15)),
                  (''first_person_rate'', Num (f64_round 0.2))],
       raw_responses = [''much longer response''] \<rparr>"

definition small_rates_reordered :: Fingerprint where
  "small_rates_reordered =
     \<lparr> model = ''mock-v2'', timestamp = ''2024-03-02T10:00:00'',
       metrics = [(''first_person_rate'', Num (f64_round 0.2)),
                  (''refusal_rate'', Num (f64_round 0.1)),
                  (''list_usage_rate'', Num (f64_round 0.15))],
       raw_responses = [''a'', ''b''] \<rparr>"

text \<open>
  A baseline with a response hash, and a current fingerprint that lacks the
  \<^verbatim>\<open>hedging_rate\<close> key.
\<close>

definition hashed_baseline :: Fingerprint where
  "hashed_baseline =
     \<lparr> model = ''test'', timestamp = ''2024-01-01'',
       metrics = [(''avg_length'', Num 100.0), (''hedging_rate'', Num 0.1),
                  (''response_hash'', Str ''90015098'')],
       raw_responses = [''abc''] \<rparr>"

definition current_without_hedging :: Fingerprint where
  "current_without_hedging =
     \<lparr> model = ''test'', timestamp = ''2024-01-02'',
       metrics = [(''avg_length'', Num 200.0), (''response_hash'', Str ''e2fc714c'')],
       raw_responses = [''abcd''] \<rparr>"

text \<open>The fingerprint of \<^verbatim>\<open>test_fingerprint_save_load\<close>.\<close>

definition save_load_test_fp :: Fingerprint where
  "save_load_test_fp =
     \<lparr> model = ''test-model'', timestamp = ''2024-01-01T00:00:00'',
       metrics = [(''avg_length'', Num 100.0), (''hedging_rate'', Num 0.2)],
       raw_responses = [''response 1'', ''response 2''] \<rparr>"

section \<open>Properties of the comparison loop\<close>

text \<open>The loop reads the current metrics only under the scored keys of the baseline.\<close>

lemma compare_loop_cong_cur:
  "(\<forall>k \<in> fst ` set ms. k \<noteq> ''response_hash'' \<longrightarrow> map_of cur k = map_of cur' k)
   \<Longrightarrow> compare_loop ms cur ch ds = compare_loop ms cur' ch ds"
proof (induction ms arbitrary: ch ds)
  case Nil
  then show ?case by simp
next
  case (Cons a ms)
  obtain k v where a: "a = (k, v)" by (cases a)
  from Cons.prems have rest: "\<forall>k \<in> fst ` set ms. k \<noteq> ''response_hash'' \<longrightarrow> map_of cur k = map_of cur' k"
    by simp
  show ?case
  proof (cases "k = ''response_hash''")
    case True
    then show ?thesis using Cons.IH [OF rest] a by simp
  next
    case False
    with Cons.prems a have "map_of cur k = map_of cur' k" by simp
    then have "dict_get cur k v = dict_get cur' k v" by (simp add: dict_get_def)
    then show ?thesis using Cons.IH [OF rest] a False by (simp add: Let_def split: sum.splits)
  qed
qed

lemma compare_loop_diffs:
  "compare_loop ms cur ch ds = Inr (ch', ds')
   \<Longrightarrow> ds' = ds @ map (\<lambda>(k, v). projr (metric_diff v (dict_get cur k v))) (scored_items ms)"
proof (induction ms arbitrary: ch ds)
  case Nil
  then show ?case by (simp add: scored_items_def)
next
  case (Cons a ms)
  obtain k v where a: "a = (k, v)" by (cases a)
  show ?case
  proof (cases "k = ''response_hash''")
    case True
    then show ?thesis using Cons a by (simp add: scored_items_def)
  next
    case False
    with Cons.prems a obtain d where md: "metric_diff v (dict_get cur k v) = Inr d"
      and rec: "compare_loop ms cur
           (if d > 0.10 then AList.update k (v, dict_get cur k v) ch else ch) (ds @ [d])
         = Inr (ch', ds')"
      by (auto simp add: Let_def split: sum.splits)
    from Cons.IH [OF rec] md a False show ?thesis
      by (simp add: scored_items_def)
  qed
qed

lemma compare_loop_ok_iff:
  "(\<exists>r. compare_loop ms cur ch ds = Inr r)
   \<longleftrightarrow> (\<forall>(k, v) \<in> set (scored_items ms). is_Num v \<and> is_Num (dict_get cur k v))"
proof (induction ms arbitrary: ch ds)
  case Nil
  then show ?case by (simp add: scored_items_def)
next
  case (Cons a ms)
  obtain k v where a: "a = (k, v)" by (cases a)
  show ?case
  proof (cases "k = ''response_hash''")
    case True
    then show ?thesis using Cons a by (simp add: scored_items_def)
  next
    case False
    show ?thesis
    proof (cases "metric_diff v (dict_get cur k v)")
      case (Inl e)
      then have "\<not> (is_Num v \<and> is_Num (dict_get cur k v))"
        by (cases v; cases "dict_get cur k v") (simp_all add: is_Num_def)
      then show ?thesis using Inl a False by (auto simp add: scored_items_def Let_def)
    next
      case (Inr d)
      then have "is_Num v \<and> is_Num (dict_get cur k v)"
        by (cases v; cases "dict_get cur k v") (simp_all add: is_Num_def)
      then show ?thesis using Inr a False Cons.IH by (simp add: scored_items_def Let_def)
    qed
  qed
qed

lemma compare_loop_error:
  "compare_loop ms cur ch ds = Inl e \<Longrightarrow> e = TypeError"
proof (induction ms arbitrary: ch ds)
  case Nil
  then show ?case by simp
next
  case (Cons a ms)
  obtain k v where a: "a = (k, v)" by (cases a)
  have md: "\<And>x y e. metric_diff x y = Inl e \<Longrightarrow> e = TypeError"
    subgoal for x y e by (cases x; cases y) simp_all done
  show ?case using Cons a
    by (auto simp add: Let_def split: if_splits sum.splits dest: md)
qed


lemma compare_loop_changed_keys:
  "compare_loop ms cur ch ds = Inr (ch', ds')
   \<Longrightarrow> fst ` set ch' = fst ` set ch \<union> fst ` {kv \<in> set (scored_items ms). item_diff cur kv > 0.10}"
proof (induction ms arbitrary: ch ds)
  case Nil
  then show ?case by (simp add: scored_items_def)
next
  case (Cons a ms)
  obtain k v where a: "a = (k, v)" by (cases a)
  show ?case
  proof (cases "k = ''response_hash''")
    case True
    then show ?thesis using Cons a by (simp add: scored_items_def)
  next
    case False
    with Cons.prems a obtain d where md: "metric_diff v (dict_get cur k v) = Inr d"
      and rec: "compare_loop ms cur
           (if d > 0.10 then AList.update k (v, dict_get cur k v) ch else ch) (ds @ [d])
         = Inr (ch', ds')"
      by (auto simp add: Let_def split: sum.splits)
    have sc: "scored_items (a # ms) = a # scored_items ms"
      using a False by (simp add: scored_items_def)
    have d: "item_diff cur a = d" using a md by (simp add: item_diff_def)
    show ?thesis
    proof (cases "d > 0.10")
      case True
      with rec have "compare_loop ms cur (AList.update k (v, dict_get cur k v) ch) (ds @ [d]) = Inr (ch', ds')"
        by simp
      from Cons.IH [OF this] have "fst ` set ch' = insert k (fst ` set ch) \<union> fst ` {kv \<in> set (scored_items ms). item_diff cur kv > 0.10}"
        by (simp add: dom_update)
      moreover have "{kv \<in> set (scored_items (a # ms)). item_diff cur kv > 0.10}
          = insert a {kv \<in> set (scored_items ms). item_diff cur kv > 0.10}"
        using True d sc by auto
      ultimately show ?thesis using a by simp
    next
      case F: False
      with rec have "compare_loop ms cur ch (ds @ [d]) = Inr (ch', ds')"
        by simp
      from Cons.IH [OF this] have "fst ` set ch' = fst ` set ch \<union> fst ` {kv \<in> set (scored_items ms). item_diff cur kv > 0.10}" .
      moreover have "{kv \<in> set (scored_items (a # ms)). item_diff cur kv > 0.10}
          = {kv \<in> set (scored_items ms). item_diff cur kv > 0.10}"
        using F d sc by auto
      ultimately show ?thesis by simp
    qed
  qed
qed

lemma compare_fingerprints_Inr:
  assumes "compare_fingerprints b c = Inr r"
  shows "drift_score r
           = hash_boost (metrics b) (metrics c)
               (mean_or_zero (map (item_diff (metrics c)) (scored_items (metrics b))))"
    and "fst ` set (changed_metrics r)
           = fst ` {kv \<in> set (scored_items (metrics b)). item_diff (metrics c) kv > 0.10}"
    and "baseline_timestamp r = timestamp b" and "current_timestamp r = timestamp c"
proof -
  from assms obtain ch ds where
    loop: "compare_loop (metrics b) (metrics c) [] [] = Inr (ch, ds)"
    by (auto simp add: compare_fingerprints_def split: sum.splits)
  from compare_loop_diffs [OF loop]
  have ds: "ds = map (item_diff (metrics c)) (scored_items (metrics b))"
    by (simp add: item_diff_def)
  from compare_loop_changed_keys [OF loop]
  have ch: "fst ` set ch = fst ` {kv \<in> set (scored_items (metrics b)). item_diff (metrics c) kv > 0.10}"
    by simp
  from assms loop have r: "r = \<lparr> baseline_timestamp = timestamp b,
                   current_timestamp = timestamp c,
                   drift_score = hash_boost (metrics b) (metrics c) (mean_or_zero ds),
                   changed_metrics = ch \<rparr>"
    by (auto simp add: compare_fingerprints_def Let_def hash_boost_def mean_or_zero_def)
  show "drift_score r
           = hash_boost (metrics b) (metrics c)
               (mean_or_zero (map (item_diff (metrics c)) (scored_items (metrics b))))"
    using r ds by simp
  show "fst ` set (changed_metrics r)
           = fst ` {kv \<in> set (scored_items (metrics b)). item_diff (metrics c) kv > 0.10}"
    using r ch by simp
  show "baseline_timestamp r = timestamp b" "current_timestamp r = timestamp c"
    using r by simp_all
qed

lemma compare_fingerprints_ok_iff:
  "(\<exists>r. compare_fingerprints b c = Inr r)
     \<longleftrightarrow> (\<forall>kv \<in> set (scored_items (metrics b)). item_numeric (metrics c) kv)"
proof -
  have "(\<exists>r. compare_fingerprints b c = Inr r)
     \<longleftrightarrow> (\<exists>r. compare_loop (metrics b) (metrics c) [] [] = Inr r)"
    by (auto simp add: compare_fingerprints_def Let_def split: sum.splits prod.splits)
  then show ?thesis
    unfolding compare_loop_ok_iff by (auto simp add: item_numeric_def)
qed

lemma compare_fingerprints_error:
  "compare_fingerprints b c = Inl e \<Longrightarrow> e = TypeError"
  by (auto simp add: compare_fingerprints_def Let_def split: sum.splits prod.splits
      dest: compare_loop_error)

lemma compare_fingerprints_cong_cur:
  assumes "timestamp c = timestamp c'"
    and "\<forall>k \<in> insert ''response_hash'' (fst ` set (metrics b)).
           map_of (metrics c) k = map_of (metrics c') k"
  shows "compare_fingerprints b c = compare_fingerprints b c'"
proof -
  from assms(2) have "compare_loop (metrics b) (metrics c) [] []
      = compare_loop (metrics b) (metrics c') [] []"
    by (intro compare_loop_cong_cur) simp
  moreover from assms(2) have
    "map_of (metrics c) ''response_hash'' = map_of (metrics c') ''response_hash''"
    by simp
  ultimately show ?thesis using assms(1)
    by (simp add: compare_fingerprints_def split: sum.splits prod.splits)
qed

lemma compare_loop_f64_cong_cur:
  "(\<forall>k \<in> fst ` set ms. k \<noteq> ''response_hash'' \<longrightarrow> map_of cur k = map_of cur' k)
   \<Longrightarrow> compare_loop_f64 ms cur ch ds = compare_loop_f64 ms cur' ch ds"
proof (induction ms arbitrary: ch ds)
  case Nil
  then show ?case by simp
next
  case (Cons a ms)
  obtain k v where a: "a = (k, v)" by (cases a)
  from Cons.prems
  have rest: "\<forall>k \<in> fst ` set ms. k \<noteq> ''response_hash'' \<longrightarrow> map_of cur k = map_of cur' k"
    by simp
  show ?case
  proof (cases "k = ''response_hash''")
    case True
    then show ?thesis using Cons.IH [OF rest] a by simp
  next
    case False
    with Cons.prems a have "map_of cur k = map_of cur' k" by simp
    then have "dict_get cur k v = dict_get cur' k v" by (simp add: dict_get_def)
    then show ?thesis using Cons.IH [OF rest] a False by (simp add: Let_def split: sum.splits)
  qed
qed

lemma dict_eq_mset:
  assumes "distinct (map fst xs)" and "distinct (map fst ys)" and "map_of xs = map_of ys"
  shows "mset xs = mset ys"
proof -
  from assms have "set xs = set ys" by (simp add: map_of_inject_set)
  moreover from assms(1,2) have "distinct xs" "distinct ys" by (auto simp add: distinct_map)
  ultimately show ?thesis by (simp add: set_eq_iff_mset_eq_distinct)
qed

lemma numeric_metrics_items:
  assumes "numeric_metrics mb" and "numeric_metrics mc" and "kv \<in> set (scored_items mb)"
  shows "item_numeric mc kv"
proof -
  obtain k v where kv: "kv = (k, v)" by (cases kv)
  with assms(3) have k: "k \<noteq> ''response_hash''" and mem: "(k, v) \<in> set mb"
    by (simp_all add: scored_items_def)
  with assms(1) have v: "is_Num v" by (auto simp add: numeric_metrics_def list_all_iff)
  have "is_Num (dict_get mc k v)"
  proof (cases "map_of mc k")
    case None
    with v show ?thesis by (simp add: dict_get_def)
  next
    case (Some w)
    then have "(k, w) \<in> set mc" by (rule map_of_SomeD)
    with assms(2) k have "is_Num w" by (auto simp add: numeric_metrics_def list_all_iff)
    with Some show ?thesis by (simp add: dict_get_def)
  qed
  with v kv show ?thesis by (simp add: item_numeric_def)
qed

lemma metric_diff_same: "is_Num v \<Longrightarrow> metric_diff v v = Inr 0"
  by (cases v) (simp_all add: is_Num_def)

lemma two_element_list:
  assumes "mset xs = {#a, b#}"
  shows "xs = [a, b] \<or> xs = [b, a]"
proof -
  from assms have "size (mset xs) = 2" by simp
  then have "length xs = 2" by simp
  then obtain x y where xs: "xs = [x, y]"
    by (metis (no_types) length_0_conv length_Suc_conv numeral_2_eq_2)
  with assms show ?thesis by (auto simp add: add_eq_conv_ex)
qed

lemma compare_loop_numeric:
  assumes "compare_loop ms cur ch ds = Inr (ch', ds')" and "kv \<in> set (scored_items ms)"
  shows "item_numeric cur kv"
proof -
  from assms(1) have "\<exists>r. compare_loop ms cur ch ds = Inr r" by simp
  then have "\<forall>(k, v) \<in> set (scored_items ms). is_Num v \<and> is_Num (dict_get cur k v)"
    by (simp only: compare_loop_ok_iff)
  with assms(2) show ?thesis by (auto simp add: item_numeric_def)
qed

lemma item_diff_missing_key:
  assumes "map_of cur (fst kv) = None" and "item_numeric cur kv"
  shows "item_diff cur kv = 0"
  using assms by (cases kv) (simp add: item_diff_def item_numeric_def dict_get_def metric_diff_same)

subsection \<open>The range of the score\<close>

text \<open>
  The score is never negative, and it is at most \<open>1\<close> on the path that the source caps:
  the one taken when the two response hashes differ.
\<close>

lemma item_diff_nonneg:
  assumes "item_numeric cur kv"
  shows "0 \<le> item_diff cur kv"
proof -
  obtain k v where kv: "kv = (k, v)" by (cases kv)
  with assms obtain x y where "v = Num x" and "dict_get cur k v = Num y"
    by (cases v; cases "dict_get cur k v") (simp_all add: item_numeric_def is_Num_def)
  with kv show ?thesis by (simp add: item_diff_def)
qed

lemma mean_or_zero_nonneg:
  assumes "\<forall>x \<in> set xs. 0 \<le> x"
  shows "0 \<le> mean_or_zero xs"
  using assms by (simp add: mean_or_zero_def np_mean_def sum_list_nonneg)

lemma drift_score_nonneg:
  assumes "compare_fingerprints b c = Inr r"
  shows "0 \<le> drift_score r"
proof -
  from assms have "\<forall>kv \<in> set (scored_items (metrics b)). item_numeric (metrics c) kv"
    using compare_fingerprints_ok_iff [of b c] by blast
  then have "0 \<le> mean_or_zero (map (item_diff (metrics c)) (scored_items (metrics b)))"
    by (intro mean_or_zero_nonneg) (auto intro: item_diff_nonneg)
  then show ?thesis
    unfolding compare_fingerprints_Inr(1) [OF assms] by (simp add: hash_boost_def)
qed

lemma drift_score_capped_on_hash_change:
  assumes "compare_fingerprints b c = Inr r"
    and "map_of (metrics b) ''response_hash'' \<noteq> map_of (metrics c) ''response_hash''"
  shows "drift_score r \<le> 1"
  unfolding compare_fingerprints_Inr(1) [OF assms(1)] using assms(2)
  by (simp add: hash_boost_def)

section \<open>Properties of the metric extraction\<close>

lemma extract_metrics_nonempty:
  assumes "responses \<noteq> []"
  shows "extract_metrics h responses =
    Inr [(''avg_length'', Num (np_mean (map (\<lambda>r. real (length r)) responses))),
         (''length_variance'', Num (np_var (map (\<lambda>r. real (length r)) responses))),
         (''avg_sentences'',
            Num (np_mean (map (\<lambda>r. real (count_list r CHR ''.'' + count_list r CHR ''!''
                                              + count_list r CHR ''?'')) responses))),
         (''hedging_rate'',
            Num (real (sum_list (map (\<lambda>r. length (filter (\<lambda>word. sublist word (lower r))
                                                      hedge_words)) responses))
                 / real (length responses))),
         (''refusal_rate'',
            Num (real (length (filter (\<lambda>r. list_ex (\<lambda>marker. sublist marker (lower r))
                                              refusal_markers) responses))
                 / real (length responses))),
         (''list_usage_rate'',
            Num (real (length (filter (\<lambda>r. list_ex (\<lambda>marker. sublist marker r) list_markers)
                                responses))
                 / real (length responses))),
         (''first_person_rate'',
            Num (real (sum_list (map (\<lambda>r. length (filter (\<lambda>fp. sublist fp (lower r))
                                                      first_person)) responses))
                 / real (length responses))),
         (''response_hash'', Str (take 8 (h (concat (sort responses)))))]"
  using assms by (simp add: extract_metrics_def py_truediv_def Let_def)

lemma extract_metrics_empty: "extract_metrics h [] = Inl ZeroDivisionError"
  by (simp add: extract_metrics_def py_truediv_def Let_def)

lemma sort_mset_eq: "mset xs = mset ys \<Longrightarrow> sort xs = sort ys"
  by (rule properties_for_sort) simp_all

lemma sum_list_map_card_pairs:
  assumes "distinct ws"
  shows "sum_list (map (\<lambda>r. length (filter (\<lambda>w. P w r) ws)) rs)
           = card {(i, w). i < length rs \<and> w \<in> set ws \<and> P w (rs ! i)}"
proof -
  have "{(i, w). i < length rs \<and> w \<in> set ws \<and> P w (rs ! i)}
          = (SIGMA i:{..<length rs}. {w \<in> set ws. P w (rs ! i)})"
    by auto
  also have "card \<dots> = (\<Sum>i\<in>{..<length rs}. card {w \<in> set ws. P w (rs ! i)})"
    by (rule card_SigmaI) simp_all
  also have "\<dots> = (\<Sum>i\<in>{..<length rs}. length (filter (\<lambda>w. P w (rs ! i)) ws))"
  proof (rule sum.cong)
    fix i
    have "{w \<in> set ws. P w (rs ! i)} = {w. P w (rs ! i)} \<inter> set ws" by auto
    with assms show "card {w \<in> set ws. P w (rs ! i)} = length (filter (\<lambda>w. P w (rs ! i)) ws)"
      by (simp add: distinct_length_filter)
  qed simp
  also have "\<dots> = sum_list (map (\<lambda>r. length (filter (\<lambda>w. P w r) ws)) rs)"
    by (simp add: sum_list_sum_nth atLeast0LessThan)
  finally show ?thesis by simp
qed

section \<open>Properties of saving and loading\<close>

lemma those_as_str_JString: "those (map (as_str \<circ> JString) rs) = Some rs"
  by (induction rs) simp_all

lemma those_as_mval_mval_json:
  "those (map ((\<lambda>(key, j). map_option (Pair key) (as_mval j))
                 \<circ> (\<lambda>(key, v). (key, mval_json v))) ms) = Some ms"
  by (induction ms) (auto simp add: mval_json_def split: mval.splits)

lemma from_kwargs_save_data: "from_kwargs (save_data fp) = Inr fp"
  by (simp add: from_kwargs_def save_data_def field_names_def those_as_str_JString
      those_as_mval_mval_json)

section \<open>The drift score and the changed metrics\<close>

text \<open>
  Claim C1: the \<^verbatim>\<open>drift_score\<close> of the report of \<^verbatim>\<open>compare_fingerprints\<close> lies in
  \<open>[0, 1]\<close>. The source caps the score at \<open>1.0\<close> only in the branch taken when the response
  hashes differ; without a difference of hashes the mean of the relative differences is
  returned as it is. On the two fingerprints of
  \<^verbatim>\<open>test_compare_fingerprints_detects_drift\<close>, which carry no hash, the function returns
  the score \<open>2.5\<close>, which is above \<open>1\<close>.
\<close>

theorem drift_score_above_one_on_test_fingerprints:
  "compare_fingerprints drift_test_fp1 drift_test_fp2
     = Inr \<lparr> baseline_timestamp = ''2024-01-01'', current_timestamp = ''2024-01-02'',
             drift_score = 2.5,
             changed_metrics = [(''avg_length'', (Num 100.0, Num 200.0)),
                                (''hedging_rate'', (Num 0.1, Num 0.5))] \<rparr>
   \<and> \<not> ((2.5 :: real) \<le> 1)"
  by (simp add: compare_fingerprints_def drift_test_fp1_def drift_test_fp2_def dict_get_def
      np_mean_def)

text \<open>
  Claim C2: for a baseline whose metrics are exactly \<open>{avg_length: 100, hedging_rate: 0.1}\<close>
  and a current fingerprint whose metrics are exactly
  \<open>{avg_length: 200, hedging_rate: 0.5}\<close> (in either insertion order, whatever the other
  fields), the loop accumulates the relative differences \<open>1\<close> and \<open>4\<close>, the report has
  \<open>drift_score = 2.5\<close>, which exceeds \<open>0.15\<close>, and the keys of \<open>changed_metrics\<close> are
  \<open>avg_length\<close> and \<open>hedging_rate\<close>.
\<close>

theorem compare_fingerprints_detects_drift_example:
  assumes "distinct (map fst (metrics baseline))"
    and "map_of (metrics baseline)
           = map_of [(''avg_length'', Num 100), (''hedging_rate'', Num 0.1)]"
    and "map_of (metrics current)
           = map_of [(''avg_length'', Num 200), (''hedging_rate'', Num 0.5)]"
  shows "\<exists>r changed ds.
      compare_loop (metrics baseline) (metrics current) [] [] = Inr (changed, ds)
    \<and> mset ds = {#1, 4#}
    \<and> compare_fingerprints baseline current = Inr r
    \<and> drift_score r = 2.5 \<and> drift_score r > 0.15 \<and> drift_detected r
    \<and> fst ` set (changed_metrics r) = {''avg_length'', ''hedging_rate''}"
proof -
  define c0 :: metrics_dict
    where "c0 = [(''avg_length'', Num 200), (''hedging_rate'', Num 0.5)]"
  from assms(1,2)
  have "mset (metrics baseline) = mset [(''avg_length'', Num 100), (''hedging_rate'', Num 0.1)]"
    by (intro dict_eq_mset) simp_all
  then have "mset (metrics baseline) = {#(''avg_length'', Num 100), (''hedging_rate'', Num 0.1)#}"
    by simp
  then have shape: "metrics baseline = [(''avg_length'', Num 100), (''hedging_rate'', Num 0.1)]
      \<or> metrics baseline = [(''hedging_rate'', Num 0.1), (''avg_length'', Num 100)]"
    by (rule two_element_list)
  have loop_eq: "compare_loop (metrics baseline) (metrics current) [] []
      = compare_loop (metrics baseline) c0 [] []"
    by (rule compare_loop_cong_cur) (simp add: assms(3) c0_def)
  have hash: "map_of (metrics baseline) ''response_hash'' = None"
    "map_of (metrics current) ''response_hash'' = None"
    by (simp_all add: assms(2,3))
  from shape show ?thesis
  proof
    assume m: "metrics baseline = [(''avg_length'', Num 100), (''hedging_rate'', Num 0.1)]"
    have l: "compare_loop (metrics baseline) (metrics current) [] []
        = Inr ([(''avg_length'', (Num 100, Num 200)), (''hedging_rate'', (Num 0.1, Num 0.5))],
               [1, 4])"
      unfolding loop_eq by (simp add: m c0_def dict_get_def)
    then have "compare_fingerprints baseline current
        = Inr \<lparr> baseline_timestamp = timestamp baseline, current_timestamp = timestamp current,
                drift_score = 2.5,
                changed_metrics = [(''avg_length'', (Num 100, Num 200)),
                                   (''hedging_rate'', (Num 0.1, Num 0.5))] \<rparr>"
      using hash by (simp add: compare_fingerprints_def np_mean_def)
    with l show ?thesis by (simp add: drift_detected_def)
  next
    assume m: "metrics baseline = [(''hedging_rate'', Num 0.1), (''avg_length'', Num 100)]"
    have l: "compare_loop (metrics baseline) (metrics current) [] []
        = Inr ([(''hedging_rate'', (Num 0.1, Num 0.5)), (''avg_length'', (Num 100, Num 200))],
               [4, 1])"
      unfolding loop_eq by (simp add: m c0_def dict_get_def)
    then have "compare_fingerprints baseline current
        = Inr \<lparr> baseline_timestamp = timestamp baseline, current_timestamp = timestamp current,
                drift_score = 2.5,
                changed_metrics = [(''hedging_rate'', (Num 0.1, Num 0.5)),
                                   (''avg_length'', (Num 100, Num 200))] \<rparr>"
      using hash by (simp add: compare_fingerprints_def np_mean_def)
    with l show ?thesis by (auto simp add: drift_detected_def)
  qed
qed

theorem compare_fingerprints_detects_drift_example_witness:
  "distinct (map fst (metrics reordered_fp1))
   \<and> map_of (metrics reordered_fp1)
        = map_of [(''avg_length'', Num 100), (''hedging_rate'', Num 0.1)]
   \<and> map_of (metrics drift_test_fp2)
        = map_of [(''avg_length'', Num 200), (''hedging_rate'', Num 0.5)]
   \<and> (\<exists>r changed ds.
        compare_loop (metrics reordered_fp1) (metrics drift_test_fp2) [] [] = Inr (changed, ds)
      \<and> mset ds = {#1, 4#}
      \<and> compare_fingerprints reordered_fp1 drift_test_fp2 = Inr r
      \<and> drift_score r = 2.5 \<and> drift_score r > 0.15 \<and> drift_detected r
      \<and> fst ` set (changed_metrics r) = {''avg_length'', ''hedging_rate''})"
proof -
  have h1: "distinct (map fst (metrics reordered_fp1))"
    by (simp add: reordered_fp1_def)
  have h2: "map_of (metrics reordered_fp1)
        = map_of [(''avg_length'', Num 100), (''hedging_rate'', Num 0.1)]"
    by (auto simp add: reordered_fp1_def fun_eq_iff)
  have h3: "map_of (metrics drift_test_fp2)
        = map_of [(''avg_length'', Num 200), (''hedging_rate'', Num 0.5)]"
    by (simp add: drift_test_fp2_def)
  from compare_fingerprints_detects_drift_example [OF h1 h2 h3] h1 h2 h3
  show ?thesis by blast
qed

text \<open>
  Claim C4: a metric key \<open>k\<close> other than \<open>response_hash\<close> that the baseline has and the
  current fingerprint lacks is treated as unchanged. The value read for the current
  fingerprint is the baseline's own; in the list of differences that the loop returns, the
  entry of \<open>k\<close> is \<open>0\<close>; \<open>k\<close> is not a key of \<open>changed_metrics\<close>; and on fingerprints typed as
  the data model says (every metric but \<open>response_hash\<close> a number) the difference of \<open>k\<close>
  is computed as \<open>0\<close> and the comparison returns a report, not an error.
\<close>

theorem missing_current_key_counts_as_unchanged:
  assumes "(k, v) \<in> set (metrics baseline)" and "k \<noteq> ''response_hash''"
    and "k \<notin> fst ` set (metrics current)"
  shows "dict_get (metrics current) k v = v
    \<and> (\<forall>ch ds. compare_loop (metrics baseline) (metrics current) [] [] = Inr (ch, ds) \<longrightarrow>
          length ds = length (scored_items (metrics baseline)) \<and>
          (\<forall>i < length ds. fst (scored_items (metrics baseline) ! i) = k \<longrightarrow> ds ! i = 0))
    \<and> (\<forall>r. compare_fingerprints baseline current = Inr r \<longrightarrow>
          k \<notin> fst ` set (changed_metrics r))
    \<and> (numeric_metrics (metrics baseline) \<and> numeric_metrics (metrics current) \<longrightarrow>
          metric_diff v (dict_get (metrics current) k v) = Inr 0 \<and>
          (\<exists>r. compare_fingerprints baseline current = Inr r))"
proof (intro conjI allI impI)
  from assms(3) have none: "map_of (metrics current) k = None"
    by (simp add: map_of_eq_None_iff)
  then show same: "dict_get (metrics current) k v = v"
    by (simp add: dict_get_def)
  {
    fix ch ds
    assume loop: "compare_loop (metrics baseline) (metrics current) [] [] = Inr (ch, ds)"
    from compare_loop_diffs [OF loop]
    have ds: "ds = map (item_diff (metrics current)) (scored_items (metrics baseline))"
      by (simp add: item_diff_def)
    then show "length ds = length (scored_items (metrics baseline))" by simp
    fix i
    assume i: "i < length ds" and key: "fst (scored_items (metrics baseline) ! i) = k"
    from i ds have mem: "scored_items (metrics baseline) ! i \<in> set (scored_items (metrics baseline))"
      by simp
    from compare_loop_numeric [OF loop mem] none key
    have "item_diff (metrics current) (scored_items (metrics baseline) ! i) = 0"
      by (intro item_diff_missing_key) simp_all
    with i ds show "ds ! i = 0" by simp
  }
  {
    fix r
    assume r: "compare_fingerprints baseline current = Inr r"
    then have num: "\<forall>kv \<in> set (scored_items (metrics baseline)). item_numeric (metrics current) kv"
      using compare_fingerprints_ok_iff [of baseline current] by blast
    show "k \<notin> fst ` set (changed_metrics r)"
    proof
      assume "k \<in> fst ` set (changed_metrics r)"
      then obtain kv where kv: "kv \<in> set (scored_items (metrics baseline))"
        and big: "item_diff (metrics current) kv > 0.10" and k: "fst kv = k"
        unfolding compare_fingerprints_Inr(2) [OF r] by auto
      from num kv none k have "item_diff (metrics current) kv = 0"
        by (intro item_diff_missing_key) simp_all
      with big show False by simp
    qed
  }
  {
    assume num: "numeric_metrics (metrics baseline) \<and> numeric_metrics (metrics current)"
    with assms(1,2) have "is_Num v"
      by (auto simp add: numeric_metrics_def list_all_iff)
    with same show "metric_diff v (dict_get (metrics current) k v) = Inr 0"
      by (simp add: metric_diff_same)
    from num show "\<exists>r. compare_fingerprints baseline current = Inr r"
      unfolding compare_fingerprints_ok_iff by (auto intro: numeric_metrics_items)
  }
qed

theorem missing_current_key_counts_as_unchanged_witness:
  "(''hedging_rate'', Num 0.1) \<in> set (metrics hashed_baseline)
   \<and> ''hedging_rate'' \<noteq> ''response_hash''
   \<and> ''hedging_rate'' \<notin> fst ` set (metrics current_without_hedging)
   \<and> numeric_metrics (metrics hashed_baseline)
   \<and> numeric_metrics (metrics current_without_hedging)
   \<and> dict_get (metrics current_without_hedging) ''hedging_rate'' (Num 0.1) = Num 0.1
   \<and> metric_diff (Num 0.1) (dict_get (metrics current_without_hedging) ''hedging_rate'' (Num 0.1))
        = Inr 0
   \<and> (\<exists>r. compare_fingerprints hashed_baseline current_without_hedging = Inr r
          \<and> ''hedging_rate'' \<notin> fst ` set (changed_metrics r))"
proof -
  have h1: "(''hedging_rate'', Num 0.1) \<in> set (metrics hashed_baseline)"
    by (simp add: hashed_baseline_def)
  have h2: "''hedging_rate'' \<noteq> ''response_hash''"
    by simp
  have h3: "''hedging_rate'' \<notin> fst ` set (metrics current_without_hedging)"
    by (simp add: current_without_hedging_def)
  have h4: "numeric_metrics (metrics hashed_baseline)"
    "numeric_metrics (metrics current_without_hedging)"
    by (simp_all add: numeric_metrics_def hashed_baseline_def current_without_hedging_def
        is_Num_def)
  from missing_current_key_counts_as_unchanged [OF h1 h2 h3] h1 h2 h3 h4
  show ?thesis by blast
qed

text \<open>
  Claim C8: two invocations on fingerprints whose metrics mappings are equal, whatever
  their model, timestamp and raw responses, return the same \<open>drift_score\<close>. Two dicts are
  equal when they hold the same values under the same keys, in whatever order the keys
  were inserted, and the loop appends the differences in the insertion order of the
  baseline; the binary64 sum of \<^verbatim>\<open>np.mean\<close> depends on that order. The two baselines
  below are equal as dicts; against the same current fingerprint the first gets the score
  \<open>0.15\<close> and no drift, the second \<open>0.15000000000000002\<close> and drift.
\<close>

theorem drift_score_depends_on_insertion_order_counterexample:
  "distinct (map fst (metrics zero_rates))
   \<and> distinct (map fst (metrics zero_rates_reordered))
   \<and> map_of (metrics zero_rates) = map_of (metrics zero_rates_reordered)
   \<and> map_sum id drift_score (compare_fingerprints_f64 zero_rates small_rates)
        = Inr (5404319552844595 / 2 ^ 55)
   \<and> map_sum id drift_score (compare_fingerprints_f64 zero_rates_reordered small_rates)
        = Inr (5404319552844596 / 2 ^ 55)
   \<and> map_sum id drift_detected_f64 (compare_fingerprints_f64 zero_rates small_rates)
        = Inr False
   \<and> map_sum id drift_detected_f64 (compare_fingerprints_f64 zero_rates_reordered small_rates)
        = Inr True"
proof -
  have "distinct (map fst (metrics zero_rates))"
    and "distinct (map fst (metrics zero_rates_reordered))"
    by (simp_all add: zero_rates_def zero_rates_reordered_def)
  moreover have "map_of (metrics zero_rates) = map_of (metrics zero_rates_reordered)"
    by (auto simp add: zero_rates_def zero_rates_reordered_def fun_eq_iff)
  moreover have "map_sum id drift_score (compare_fingerprints_f64 zero_rates small_rates)
        = Inr (5404319552844595 / 2 ^ 55)
   \<and> map_sum id drift_score (compare_fingerprints_f64 zero_rates_reordered small_rates)
        = Inr (5404319552844596 / 2 ^ 55)
   \<and> map_sum id drift_detected_f64 (compare_fingerprints_f64 zero_rates small_rates)
        = Inr False
   \<and> map_sum id drift_detected_f64 (compare_fingerprints_f64 zero_rates_reordered small_rates)
        = Inr True"
    by code_simp
  ultimately show ?thesis by blast
qed

text \<open>
  Claim C8, amended: two invocations on fingerprints whose baseline metrics are equal with
  the same insertion order of the keys and whose current metrics are equal as mappings,
  whatever their model, timestamp and raw responses, give the same outcome: the same
  error, or reports with the same \<open>drift_score\<close>. This holds over the reals and with every
  operation rounded to binary64.
\<close>

theorem drift_score_deterministic_in_metrics:
  assumes "metrics b = metrics b'" and "map_of (metrics c) = map_of (metrics c')"
  shows "map_sum id drift_score (compare_fingerprints b c)
           = map_sum id drift_score (compare_fingerprints b' c')
       \<and> map_sum id drift_score (compare_fingerprints_f64 b c)
           = map_sum id drift_score (compare_fingerprints_f64 b' c')"
proof
  have "compare_loop (metrics b) (metrics c) [] [] = compare_loop (metrics b') (metrics c') [] []"
    unfolding assms(1) by (rule compare_loop_cong_cur) (simp add: assms(2))
  then show "map_sum id drift_score (compare_fingerprints b c)
           = map_sum id drift_score (compare_fingerprints b' c')"
    by (simp add: compare_fingerprints_def assms Let_def split: sum.splits prod.splits)
  have "compare_loop_f64 (metrics b) (metrics c) [] []
          = compare_loop_f64 (metrics b') (metrics c') [] []"
    unfolding assms(1) by (rule compare_loop_f64_cong_cur) (simp add: assms(2))
  then show "map_sum id drift_score (compare_fingerprints_f64 b c)
           = map_sum id drift_score (compare_fingerprints_f64 b' c')"
    by (simp add: compare_fingerprints_f64_def assms split: sum.splits prod.splits)
qed

theorem drift_score_deterministic_in_metrics_witness:
  "metrics zero_rates = metrics zero_rates_relabelled
   \<and> map_of (metrics small_rates) = map_of (metrics small_rates_reordered)
   \<and> map_sum id drift_score (compare_fingerprints zero_rates small_rates)
        = map_sum id drift_score (compare_fingerprints zero_rates_relabelled small_rates_reordered)
   \<and> map_sum id drift_score (compare_fingerprints_f64 zero_rates small_rates)
        = map_sum id drift_score
            (compare_fingerprints_f64 zero_rates_relabelled small_rates_reordered)"
proof -
  have h1: "metrics zero_rates = metrics zero_rates_relabelled"
    by (simp add: zero_rates_def zero_rates_relabelled_def)
  have h2: "map_of (metrics small_rates) = map_of (metrics small_rates_reordered)"
    by (auto simp add: small_rates_def small_rates_reordered_def fun_eq_iff)
  from drift_score_deterministic_in_metrics [OF h1 h2] h1 h2
  show ?thesis by blast
qed

text \<open>
  Claim C10: a metric key of the current fingerprint that the baseline does not have has
  no effect on the result. As stated, for every key, this fails for the key
  \<open>response_hash\<close>: the source compares the two hashes with \<^verbatim>\<open>.get\<close>, so a hash that only
  the current fingerprint has counts as a changed hash and adds \<open>0.1\<close> to the score.
\<close>

theorem extra_response_hash_counterexample:
  "compare_fingerprints
     \<lparr> model = ''m'', timestamp = ''t0'', metrics = [], raw_responses = [] \<rparr>
     \<lparr> model = ''m'', timestamp = ''t1'', metrics = [(''response_hash'', Str ''0cc175b9'')],
       raw_responses = [''a''] \<rparr>
   = Inr \<lparr> baseline_timestamp = ''t0'', current_timestamp = ''t1'', drift_score = 0.1,
           changed_metrics = [] \<rparr>
   \<and> compare_fingerprints
     \<lparr> model = ''m'', timestamp = ''t0'', metrics = [], raw_responses = [] \<rparr>
     \<lparr> model = ''m'', timestamp = ''t1'', metrics = [], raw_responses = [''a''] \<rparr>
   = Inr \<lparr> baseline_timestamp = ''t0'', current_timestamp = ''t1'', drift_score = 0,
           changed_metrics = [] \<rparr>"
  by (simp add: compare_fingerprints_def)

text \<open>
  Claim C10, amended: a metric key other than \<open>response_hash\<close> that the baseline does not
  have has no effect on the result. Storing any value under it in the current metrics, or
  deleting it from them, leaves the whole outcome of \<open>compare_fingerprints\<close> (the error, or
  the report with its \<open>drift_score\<close> and \<open>changed_metrics\<close>) as it was.
\<close>

theorem extra_current_key_has_no_effect:
  assumes "k \<notin> fst ` set (metrics baseline)" and "k \<noteq> ''response_hash''"
  shows "compare_fingerprints baseline (current\<lparr>metrics := AList.update k v (metrics current)\<rparr>)
           = compare_fingerprints baseline current
       \<and> compare_fingerprints baseline (current\<lparr>metrics := AList.delete k (metrics current)\<rparr>)
           = compare_fingerprints baseline current"
proof
  show "compare_fingerprints baseline (current\<lparr>metrics := AList.update k v (metrics current)\<rparr>)
           = compare_fingerprints baseline current"
    using assms by (intro compare_fingerprints_cong_cur) (auto simp add: update_conv')
  show "compare_fingerprints baseline (current\<lparr>metrics := AList.delete k (metrics current)\<rparr>)
           = compare_fingerprints baseline current"
    using assms by (intro compare_fingerprints_cong_cur) (auto simp add: delete_conv')
qed

theorem extra_current_key_has_no_effect_witness:
  "''verbosity'' \<notin> fst ` set (metrics drift_test_fp1)
   \<and> ''verbosity'' \<noteq> ''response_hash''
   \<and> compare_fingerprints drift_test_fp1
        (drift_test_fp2\<lparr>metrics := AList.update ''verbosity'' (Num 7) (metrics drift_test_fp2)\<rparr>)
        = compare_fingerprints drift_test_fp1 drift_test_fp2
   \<and> compare_fingerprints drift_test_fp1
        (drift_test_fp2\<lparr>metrics := AList.delete ''verbosity'' (metrics drift_test_fp2)\<rparr>)
        = compare_fingerprints drift_test_fp1 drift_test_fp2"
proof -
  have h1: "''verbosity'' \<notin> fst ` set (metrics drift_test_fp1)"
    by (simp add: drift_test_fp1_def)
  have h2: "''verbosity'' \<noteq> ''response_hash''"
    by simp
  from extra_current_key_has_no_effect [OF h1 h2] h1 h2
  show ?thesis by blast
qed

section \<open>The extracted metrics\<close>

text \<open>
  Claim C3: for a non-empty list of responses, \<open>hedging_rate\<close> is the total number of
  occurrences of the hedge terms in the responses divided by the number of responses, a
  term that occurs several times in a response counting each time. The source adds \<open>1\<close>
  for each hedge term that is a substring of the lower-cased response, however often it
  occurs: for the single response \<open>maybe maybe\<close> it returns the rate \<open>1\<close>, where the number
  of occurrences is \<open>2\<close>.
\<close>

theorem hedging_rate_repeated_term_counterexample:
  "get_metric ''hedging_rate'' (extract_metrics id [''maybe maybe'']) = Inr (Num 1)
   \<and> spec_hedging_rate [''maybe maybe''] = 2"
  by code_simp

text \<open>
  Claim C3, amended: for a non-empty list of responses, \<open>hedging_rate\<close> is the number of
  pairs of a response (a position of the list) and a hedge term such that the term is a
  substring of the lower-cased response, divided by the number of responses. A response
  that contains the same term several times contributes \<open>1\<close> for that term.
\<close>

theorem hedging_rate_counts_terms_present:
  assumes "responses \<noteq> []"
  shows "get_metric ''hedging_rate'' (extract_metrics h responses)
    = Inr (Num (real (card {(i, word). i < length responses \<and> word \<in> set hedge_words
                              \<and> (\<exists>ps ss. lower (responses ! i) = ps @ word @ ss)})
                / real (length responses)))"
proof -
  have "distinct hedge_words" by (simp add: hedge_words_def)
  from sum_list_map_card_pairs [OF this, of "\<lambda>w r. sublist w (lower r)" responses]
  have "sum_list (map (\<lambda>r. length (filter (\<lambda>word. sublist word (lower r)) hedge_words)) responses)
    = card {(i, word). i < length responses \<and> word \<in> set hedge_words
                              \<and> (\<exists>ps ss. lower (responses ! i) = ps @ word @ ss)}"
    by (simp add: sublist_def)
  then show ?thesis
    by (simp add: extract_metrics_nonempty [OF assms] get_metric_def)
qed

theorem hedging_rate_counts_terms_present_witness:
  "[''maybe maybe''] \<noteq> []
   \<and> card {(i, word). i < length [''maybe maybe''] \<and> word \<in> set hedge_words
             \<and> (\<exists>ps ss. lower ([''maybe maybe''] ! i) = ps @ word @ ss)} = 1"
proof -
  have h: "[''maybe maybe''] \<noteq> []"
    by simp
  have "get_metric ''hedging_rate'' (extract_metrics id [''maybe maybe'']) = Inr (Num 1)"
    by code_simp
  with hedging_rate_counts_terms_present [OF h, of id] h
  show ?thesis by simp
qed

text \<open>
  Claim C5: for a non-empty list of responses and any permutation of it,
  \<open>extract_metrics\<close> returns the same \<open>response_hash\<close>: the digest, cut to eight characters,
  of the concatenation of the sorted responses.
\<close>

theorem response_hash_order_independent:
  assumes "responses \<noteq> []" and "mset permuted = mset responses"
  shows "get_metric ''response_hash'' (extract_metrics h permuted)
           = get_metric ''response_hash'' (extract_metrics h responses)
       \<and> get_metric ''response_hash'' (extract_metrics h responses)
           = Inr (Str (take 8 (h (concat (sort responses)))))"
proof -
  from assms have ne: "permuted \<noteq> []" by auto
  from assms(2) have "sort permuted = sort responses" by (rule sort_mset_eq)
  then show ?thesis
    by (simp add: extract_metrics_nonempty [OF assms(1)] extract_metrics_nonempty [OF ne]
        get_metric_def)
qed

theorem response_hash_order_independent_witness:
  "[''beta'', ''alpha''] \<noteq> []
   \<and> mset [''alpha'', ''beta''] = mset [''beta'', ''alpha'']
   \<and> get_metric ''response_hash'' (extract_metrics id [''alpha'', ''beta''])
        = get_metric ''response_hash'' (extract_metrics id [''beta'', ''alpha''])"
proof -
  have h1: "[''beta'', ''alpha''] \<noteq> []"
    by simp
  have h2: "mset [''alpha'', ''beta''] = mset [''beta'', ''alpha'']"
    by simp
  from response_hash_order_independent [OF h1 h2, of id] h1 h2
  show ?thesis by blast
qed

text \<open>
  Claim C7: \<open>extract_metrics\<close> succeeds on every list of strings, the empty list included.
  On the empty list the source divides by \<^verbatim>\<open>len(responses)\<close>, which is \<open>0\<close>, and raises
  \<^verbatim>\<open>ZeroDivisionError\<close>.
\<close>

theorem extract_metrics_empty_counterexample:
  "extract_metrics id [] = Inl ZeroDivisionError"
  by (simp add: extract_metrics_def py_truediv_def Let_def)

text \<open>
  Claim C7, amended: \<open>extract_metrics\<close> succeeds on every non-empty list of strings, and
  returns a dict with the eight documented keys; on the empty list it raises
  \<^verbatim>\<open>ZeroDivisionError\<close>.
\<close>

theorem extract_metrics_total_on_nonempty:
  "(responses \<noteq> [] \<longrightarrow> (\<exists>m. extract_metrics h responses = Inr m \<and> map fst m = metric_keys))
   \<and> extract_metrics h [] = Inl ZeroDivisionError"
  by (simp add: extract_metrics_nonempty extract_metrics_empty metric_keys_def)

theorem extract_metrics_total_on_nonempty_witness:
  "[''Short.'', ''This is a longer response with more words.''] \<noteq> []
   \<and> (\<exists>m. extract_metrics id [''Short.'', ''This is a longer response with more words.'']
            = Inr m \<and> map fst m = metric_keys)"
proof -
  have h: "[''Short.'', ''This is a longer response with more words.''] \<noteq> []"
    by simp
  from extract_metrics_total_on_nonempty
         [of "[''Short.'', ''This is a longer response with more words.'']" id] h
  show ?thesis by blast
qed

text \<open>
  Claim C9: there are two lists of responses that are different multisets and have the same
  \<open>response_hash\<close>. The lists \<open>["ab", "c"]\<close> and \<open>["a", "bc"]\<close> both have the sorted
  concatenation \<open>abc\<close>, so both get the first eight characters of the digest of \<open>abc\<close>,
  whatever the digest function.
\<close>

theorem response_hash_ignores_boundaries:
  "mset [''ab'', ''c''] \<noteq> mset [''a'', ''bc'']
   \<and> get_metric ''response_hash'' (extract_metrics h [''ab'', ''c''])
       = Inr (Str (take 8 (h ''abc'')))
   \<and> get_metric ''response_hash'' (extract_metrics h [''a'', ''bc''])
       = Inr (Str (take 8 (h ''abc'')))"
proof -
  have "sort [''ab'', ''c''] = [''ab'', ''c'']" and "sort [''a'', ''bc''] = [''a'', ''bc'']"
    by simp_all
  moreover have "mset [''ab'', ''c''] \<noteq> mset [''a'', ''bc'']"
  proof
    assume "mset [''ab'', ''c''] = mset [''a'', ''bc'']"
    then have "''ab'' \<in> set [''a'', ''bc'']" by (metis mset_eq_setD list.set_intros(1))
    then show False by simp
  qed
  ultimately show ?thesis
    by (simp add: extract_metrics_nonempty get_metric_def)
qed

theorem response_hash_ignores_boundaries_witness:
  "get_metric ''response_hash'' (extract_metrics id [''ab'', ''c'']) = Inr (Str ''abc'')
   \<and> get_metric ''response_hash'' (extract_metrics id [''a'', ''bc'']) = Inr (Str ''abc'')"
  using response_hash_ignores_boundaries [of id] by simp

section \<open>Persistence\<close>

text \<open>
  Claim C6: saving a fingerprint to a path and loading that path gives back a fingerprint
  with the same model, timestamp, metrics and raw responses. The fingerprint is
  JSON-representable when \<^verbatim>\<open>json.loads\<close> gives back, from the text that \<^verbatim>\<open>json.dumps\<close>
  produces for the dict built by \<^verbatim>\<open>save\<close>, that dict; for every such pair of library
  functions, every path and every previous state of the file system (a file at the path
  is overwritten), loading after saving returns the fingerprint itself.
\<close>

theorem save_load_roundtrip:
  assumes "json_loads (json_dumps (save_data fp)) = Inr (save_data fp)"
  shows "load json_loads path (save json_dumps fp path fs) = Inr fp
    \<and> (\<exists>loaded. load json_loads path (save json_dumps fp path fs) = Inr loaded
          \<and> model loaded = model fp \<and> timestamp loaded = timestamp fp
          \<and> metrics loaded = metrics fp \<and> raw_responses loaded = raw_responses fp)"
  using assms by (simp add: load_def save_def from_kwargs_save_data)

theorem save_load_roundtrip_witness:
  "Inr (id (save_data save_load_test_fp)) = (Inr (save_data save_load_test_fp) :: error + json)
   \<and> load Inr ''baseline.json''
        (save id save_load_test_fp ''baseline.json'' [''baseline.json'' \<mapsto> JNull])
        = Inr save_load_test_fp"
proof -
  have h: "Inr (id (save_data save_load_test_fp))
             = (Inr (save_data save_load_test_fp) :: error + json)"
    by simp
  from save_load_roundtrip [of Inr id save_load_test_fp, OF h] h
  show ?thesis by blast
qed

end
